theory Spec2Isabelle
  imports Complex_Main
begin

section \<open>Python values shared by the modules\<close>

text \<open>
  Times are Python floats in the source. They are modelled as rationals with exact
  arithmetic; rounding of binary floating point is not modelled. Strings are lists of
  8-bit characters. An exception is a value: its class and its message (\<open>str(e)\<close>).
\<close>

datatype exn_kind =
  FileNotFoundError | TypeError | ValueError | ZeroDivisionError | RuntimeError
  | AttributeError | OtherError

datatype exn = Exn exn_kind string

fun exn_class :: "exn \<Rightarrow> exn_kind" where
  "exn_class (Exn k m) = k"

fun str_of_exn :: "exn \<Rightarrow> string" where
  "str_of_exn (Exn k m) = m"

text \<open>Truthiness of an optional string: \<open>None\<close> and the empty string are falsy.\<close>

fun truthy :: "string option \<Rightarrow> bool" where
  "truthy None = False"
| "truthy (Some s) = (s \<noteq> [])"

text \<open>\<open>str.isspace\<close> on the code points below 256, and \<open>str.strip()\<close>.\<close>

definition is_space :: "char \<Rightarrow> bool" where
  "is_space c = (of_char c \<in> {9, 10, 11, 12, 13, 28, 29, 30, 31, 32, 133, 160 :: nat})"

definition strip :: "string \<Rightarrow> string" where
  "strip s = rev (dropWhile is_space (rev (dropWhile is_space s)))"

text \<open>\<open>str.upper()\<close> and \<open>str.lower()\<close>, on ASCII letters (language codes are ASCII).\<close>

definition upper_char :: "char \<Rightarrow> char" where
  "upper_char c = (let n = (of_char c :: nat) in if 97 \<le> n \<and> n \<le> 122 then char_of (n - 32) else c)"

definition upper :: "string \<Rightarrow> string" where
  "upper s = map upper_char s"

section \<open>core/pipeline.py: PipelineConfig\<close>

record PipelineConfig =
  mode :: string
  source_language :: string
  target_language :: "string option"
  output_formats :: "string list"
  embed_subtitles :: bool
  bilingual_subtitles :: bool
  multilingual_detection :: bool
  preserve_original_languages :: bool
  add_language_labels :: bool
  vad_method :: string
  device :: string
  cpu_threads :: "int option"
  cache_dir :: "string option"

text \<open>
  \<open>PipelineConfig.__post_init__\<close>. The dataclass constructor stores the given field
  values and then runs this method, so a constructed configuration is \<open>post_init\<close> of the
  raw field values. \<open>home_cache\<close> stands for \<open>str(Path.home() / ".cache" / "motherline")\<close>.
\<close>

definition post_init :: "string \<Rightarrow> PipelineConfig \<Rightarrow> PipelineConfig" where
  "post_init home_cache c0 =
     (let c1 = (if cache_dir c0 = None then c0\<lparr>cache_dir := Some home_cache\<rparr> else c0)
      in if multilingual_detection c1 then
           (let c2 = (if source_language c1 = ''auto''
                      then c1\<lparr>source_language := ''multilingual''\<rparr> else c1)
            in if \<not> truthy (target_language c2)
               then c2\<lparr>preserve_original_languages := True\<rparr> else c2)
         else c1)"

text \<open>The defaults of the dataclass fields.\<close>

definition default_config :: PipelineConfig where
  "default_config =
     \<lparr>mode = ''fast'', source_language = ''auto'', target_language = None,
      output_formats = [''srt''], embed_subtitles = False, bilingual_subtitles = False,
      multilingual_detection = False, preserve_original_languages = False,
      add_language_labels = False, vad_method = ''silero'', device = ''auto'',
      cpu_threads = None, cache_dir = None\<rparr>"

section \<open>audio/vad.py: VADSegmenter\<close>

text \<open>
  A span is a pair \<open>(start, end)\<close> in seconds. The audio is the list of its samples.
  The Silero model and the WebRTC classifier are external: the loaded model is a function
  from the audio and the sample rate to the raw speech timestamps (or an exception), the
  classifier a function from a frame and the sample rate to a verdict (or an exception).
  \<open>vad_env\<close> holds what the module finds at run time: the outcome of
  \<open>torch.hub.load\<close>, the flag \<open>WEBRTCVAD_AVAILABLE\<close> and the constructor
  \<open>webrtcvad.Vad\<close>.
\<close>

type_synonym span = "rat \<times> rat"
type_synonym audio = "rat list"
type_synonym silero_model = "audio \<Rightarrow> int \<Rightarrow> exn + span list"
type_synonym webrtc_classifier = "int list \<Rightarrow> int \<Rightarrow> exn + bool"

text \<open>The fields of the segmenter; \<open>seg_method\<close> is the attribute \<open>method\<close>.\<close>

record VADSegmenter =
  seg_method :: string
  aggressiveness :: int
  min_speech_duration :: rat
  max_speech_duration :: rat
  sample_rate :: int
  vad_model :: "silero_model option"
  webrtc_vad :: "webrtc_classifier option"

record vad_env =
  torch_hub_load :: "exn + silero_model"
  WEBRTCVAD_AVAILABLE :: bool
  webrtcvad_Vad :: "int \<Rightarrow> exn + webrtc_classifier"

text \<open>\<open>_init_webrtc_vad\<close> and \<open>_init_vad\<close>, called by \<open>__init__\<close>.\<close>

definition init_webrtc_vad :: "vad_env \<Rightarrow> VADSegmenter \<Rightarrow> VADSegmenter" where
  "init_webrtc_vad env s =
     (if \<not> WEBRTCVAD_AVAILABLE env then s\<lparr>seg_method := ''fixed''\<rparr>
      else (case webrtcvad_Vad env (aggressiveness s) of
              Inr v \<Rightarrow> s\<lparr>webrtc_vad := Some v\<rparr>
            | Inl e \<Rightarrow> s\<lparr>seg_method := ''fixed''\<rparr>))"

definition invalid_method_message :: "string \<Rightarrow> string" where
  "invalid_method_message m =
     ''M'' @ [CHR 0xE9] @ ''todo VAD inv'' @ [CHR 0xE1] @ ''lido: '' @ m"

definition init_vad :: "vad_env \<Rightarrow> VADSegmenter \<Rightarrow> exn + VADSegmenter" where
  "init_vad env s =
     (if seg_method s = ''silero'' then
        (case torch_hub_load env of
           Inr m \<Rightarrow> Inr (s\<lparr>vad_model := Some m\<rparr>)
         | Inl e \<Rightarrow> Inr (init_webrtc_vad env (s\<lparr>seg_method := ''webrtc''\<rparr>)))
      else if seg_method s = ''webrtc'' then Inr (init_webrtc_vad env s)
      else if seg_method s = ''fixed'' then Inr s
      else Inl (Exn ValueError (invalid_method_message (seg_method s))))"

definition VADSegmenter_init ::
  "vad_env \<Rightarrow> string \<Rightarrow> int \<Rightarrow> rat \<Rightarrow> rat \<Rightarrow> int \<Rightarrow> exn + VADSegmenter" where
  "VADSegmenter_init env m a mn mx sr =
     init_vad env \<lparr>seg_method = m, aggressiveness = a, min_speech_duration = mn,
                   max_speech_duration = mx, sample_rate = sr,
                   vad_model = None, webrtc_vad = None\<rparr>"

text \<open>
  \<open>_segment_fixed\<close>. The \<open>while\<close> loop may run forever, so it is a partial
  function: \<open>None\<close> stands for a call that does not return. The result of a
  segmentation is \<open>None\<close> (no return), \<open>Some (Inl e)\<close> (exception \<open>e\<close>
  raised) or \<open>Some (Inr spans)\<close>.
\<close>

partial_function (option) fixed_loop ::
  "rat \<Rightarrow> rat \<Rightarrow> rat \<Rightarrow> span list \<Rightarrow> span list option" where
  "fixed_loop duration segment_length current_time segments =
     (if current_time < duration then
        (let end_time = min (current_time + segment_length) duration
         in fixed_loop duration segment_length end_time (segments @ [(current_time, end_time)]))
      else Some segments)"













subsection \<open>Well-formed span lists\<close>





definition chain :: "rat \<Rightarrow> rat \<Rightarrow> span list \<Rightarrow> bool" where
  "chain lo hi xs =
     ((\<forall>p \<in> set xs. lo \<le> fst p \<and> fst p < snd p \<and> snd p \<le> hi)
      \<and> sorted_wrt (\<lambda>a b. snd a \<le> fst b) xs)"


subsection \<open>Concrete segmenters\<close>






section \<open>subtitle/generator.py: SubtitleGenerator\<close>

text \<open>
  The dataclass \<open>SubtitleSegment\<close>; its fields \<open>index\<close>, \<open>start\<close>, \<open>end\<close>,
  \<open>text\<close> and \<open>translation\<close> carry the prefix \<open>sub_\<close> here.
\<close>

record SubtitleSegment =
  sub_index :: int
  sub_start :: rat
  sub_end :: rat
  sub_text :: string
  sub_translation :: "string option"

text \<open>
  \<open>validate_segments\<close>. The loop body mutates the segment and either keeps it or skips
  it (\<open>continue\<close>): \<open>validate_segment\<close> returns the mutated segment and whether it is
  kept. The start and end repairs come before the text check, the duration clamp after.
\<close>

definition validate_segment :: "SubtitleSegment \<Rightarrow> SubtitleSegment \<times> bool" where
  "validate_segment segment =
     (let s1 = (if sub_start segment < 0 then segment\<lparr>sub_start := 0\<rparr> else segment);
          s2 = (if sub_end s1 \<le> sub_start s1 then s1\<lparr>sub_end := sub_start s1 + 1\<rparr> else s1)
      in if sub_text s2 = [] \<or> strip (sub_text s2) = [] then (s2, False)
         else (let max_duration = 10;
                   s3 = (if sub_end s2 - sub_start s2 > max_duration
                         then s2\<lparr>sub_end := sub_start s2 + max_duration\<rparr> else s2)
               in (s3, True)))"

definition validate_segments :: "SubtitleSegment list \<Rightarrow> SubtitleSegment list" where
  "validate_segments segments = map fst (filter snd (map validate_segment segments))"

subsection \<open>Number formatting\<close>

text \<open>
  The format specifications the renderers use: \<open>{n:0wd}\<close> for an integer and
  \<open>{x:0w.pf}\<close> for a non-negative float, which rounds to \<open>p\<close> decimals (half to even).
\<close>

definition nl :: string where
  "nl = [CHR 0x0A]"









subsection \<open>The renderers\<close>













section \<open>core/pipeline.py: MotherLinePipeline\<close>

subsection \<open>Exception handlers and calls with keyword arguments\<close>

text \<open>\<open>try: body except Exception as e: handler\<close>.\<close>

definition try_except :: "exn + 'a \<Rightarrow> (exn \<Rightarrow> exn + 'a) \<Rightarrow> exn + 'a" where
  "try_except body handler = (case body of Inl e \<Rightarrow> handler e | Inr v \<Rightarrow> Inr v)"

text \<open>
  A call that passes keyword arguments binds them to the parameters of the callee: a
  keyword that is no parameter raises TypeError, and so does a parameter without default
  that no keyword gives. The messages are those of CPython 3.10 and later for a single
  name. \<open>str_arg\<close> and the like read a bound argument of the declared type, or the
  default of the parameter.
\<close>

datatype pyval = PyNone | PyInt int | PyFloat rat | PyStr string

type_synonym kwargs = "(string \<times> pyval) list"

definition quoted :: "string \<Rightarrow> string" where
  "quoted s = [CHR 0x27] @ s @ [CHR 0x27]"

definition check_keywords :: "string \<Rightarrow> string list \<Rightarrow> string list \<Rightarrow> kwargs \<Rightarrow> exn + unit" where
  "check_keywords fname params required kw =
     (case filter (\<lambda>k. k \<notin> set params) (map fst kw) of
        k # _ \<Rightarrow>
          Inl (Exn TypeError (fname @ ''() got an unexpected keyword argument '' @ quoted k))
      | [] \<Rightarrow>
          (case filter (\<lambda>p. p \<notin> set (map fst kw)) required of
             p # _ \<Rightarrow>
               Inl (Exn TypeError
                     (fname @ ''() missing 1 required positional argument: '' @ quoted p))
           | [] \<Rightarrow> Inr ()))"

definition int_arg :: "kwargs \<Rightarrow> string \<Rightarrow> int \<Rightarrow> int" where
  "int_arg kw name dflt = (case map_of kw name of Some (PyInt i) \<Rightarrow> i | _ \<Rightarrow> dflt)"

definition float_arg :: "kwargs \<Rightarrow> string \<Rightarrow> rat \<Rightarrow> rat" where
  "float_arg kw name dflt =
     (case map_of kw name of Some (PyFloat x) \<Rightarrow> x | Some (PyInt i) \<Rightarrow> of_int i | _ \<Rightarrow> dflt)"

definition str_arg :: "kwargs \<Rightarrow> string \<Rightarrow> string \<Rightarrow> string" where
  "str_arg kw name dflt = (case map_of kw name of Some (PyStr s) \<Rightarrow> s | _ \<Rightarrow> dflt)"

definition optional_str_arg :: "kwargs \<Rightarrow> string \<Rightarrow> string option" where
  "optional_str_arg kw name = (case map_of kw name of Some (PyStr s) \<Rightarrow> Some s | _ \<Rightarrow> None)"

text \<open>
  The constructor of the dataclass \<open>SubtitleSegment\<close> (fields \<open>index\<close>, \<open>start\<close>,
  \<open>end\<close>, \<open>text\<close>, and \<open>translation\<close> with default \<open>None\<close>) and
  \<open>VADSegmenter.__init__\<close> (parameters \<open>method\<close>, \<open>aggressiveness\<close>,
  \<open>min_speech_duration\<close>, \<open>max_speech_duration\<close>, \<open>sample_rate\<close>, all with
  defaults), called with keyword arguments.
\<close>

definition SubtitleSegment_new :: "kwargs \<Rightarrow> exn + SubtitleSegment" where
  "SubtitleSegment_new kw =
     (case check_keywords ''SubtitleSegment.__init__''
             [''index'', ''start'', ''end'', ''text'', ''translation'']
             [''index'', ''start'', ''end'', ''text''] kw of
        Inl e \<Rightarrow> Inl e
      | Inr _ \<Rightarrow>
          Inr \<lparr>sub_index = int_arg kw ''index'' 0, sub_start = float_arg kw ''start'' 0,
               sub_end = float_arg kw ''end'' 0, sub_text = str_arg kw ''text'' [],
               sub_translation = optional_str_arg kw ''translation''\<rparr>)"

definition VADSegmenter_new :: "vad_env \<Rightarrow> kwargs \<Rightarrow> exn + VADSegmenter" where
  "VADSegmenter_new env kw =
     (case check_keywords ''VADSegmenter.__init__''
             [''method'', ''aggressiveness'', ''min_speech_duration'', ''max_speech_duration'',
              ''sample_rate''] [] kw of
        Inl e \<Rightarrow> Inl e
      | Inr _ \<Rightarrow>
          VADSegmenter_init env (str_arg kw ''method'' ''silero'') (int_arg kw ''aggressiveness'' 1)
            (float_arg kw ''min_speech_duration'' (1 / 2))
            (float_arg kw ''max_speech_duration'' 30) (int_arg kw ''sample_rate'' 16000))"

subsection \<open>Transcription and translation records\<close>

text \<open>
  The dataclasses \<open>TranscriptionSegment\<close> and \<open>TranscriptionResult\<close> of
  asr/whisper\_engine.py and \<open>TranslationResult\<close> of translation/translator.py, with
  prefixes \<open>seg_\<close>, \<open>tr_\<close> and \<open>tl_\<close>. \<open>seg_translated_text\<close> is the attribute
  the pipeline attaches to a segment; \<open>None\<close> is the attribute being absent.
  \<open>seg_language\<close> is optional because the pipeline assigns the optional target
  language to it.
\<close>

record TranscriptionSegment =
  seg_id :: int
  seg_start :: rat
  seg_end :: rat
  seg_text :: string
  seg_confidence :: rat
  seg_language :: "string option"
  seg_language_confidence :: rat
  seg_translated_text :: "string option"

record TranscriptionResult =
  tr_segments :: "TranscriptionSegment list"
  tr_detected_language :: string
  tr_language_confidence :: rat
  tr_processing_time :: rat
  tr_model_used :: string
  tr_multilingual_detected :: bool
  tr_languages_found :: "string list option"

record TranslationResult =
  tl_original_text :: string
  tl_translated_text :: string
  tl_source_language :: "string option"
  tl_target_language :: "string option"
  tl_confidence :: rat

text \<open>
  The translator is external: \<open>translate_text(text, source_lang, target_lang)\<close> returns
  a result or raises.
\<close>

type_synonym translator = "string \<Rightarrow> string option \<Rightarrow> string option \<Rightarrow> exn + TranslationResult"

subsection \<open>\<open>_translate_segments\<close>\<close>

text \<open>
  The body of the loop, for one segment: the updated segment. \<open>segment_source_lang\<close>
  is the local \<open>source_lang\<close>. The \<open>try\<close> block calls
  the translator and updates the segment; the handler logs and, when originals are
  preserved, sets the translation to the text.
\<close>

definition segment_source_lang ::
  "PipelineConfig \<Rightarrow> TranscriptionResult \<Rightarrow> TranscriptionSegment \<Rightarrow> string option" where
  "segment_source_lang config transcription_result segment =
     (if multilingual_detection config then seg_language segment
      else Some (tr_detected_language transcription_result))"

definition translate_segment ::
  "PipelineConfig \<Rightarrow> translator \<Rightarrow> TranscriptionResult \<Rightarrow> TranscriptionSegment
   \<Rightarrow> exn + TranscriptionSegment" where
  "translate_segment config translate transcription_result segment =
     (let source_lang = segment_source_lang config transcription_result segment
      in if source_lang \<noteq> target_language config then
           try_except
             (case translate (seg_text segment) source_lang (target_language config) of
                Inl e \<Rightarrow> Inl e
              | Inr translation \<Rightarrow>
                  (if preserve_original_languages config
                   then Inr (segment\<lparr>seg_translated_text := Some (tl_translated_text translation)\<rparr>)
                   else Inr (segment\<lparr>seg_text := tl_translated_text translation,
                                      seg_language := target_language config\<rparr>)))
             (\<lambda>e. if preserve_original_languages config
                  then Inr (segment\<lparr>seg_translated_text := Some (seg_text segment)\<rparr>)
                  else Inr segment)
         else if preserve_original_languages config
           then Inr (segment\<lparr>seg_translated_text := Some (seg_text segment)\<rparr>)
         else Inr segment)"

fun translate_loop ::
  "PipelineConfig \<Rightarrow> translator \<Rightarrow> TranscriptionResult \<Rightarrow> TranscriptionSegment list
   \<Rightarrow> exn + TranscriptionSegment list" where
  "translate_loop config translate transcription_result [] = Inr []"
| "translate_loop config translate transcription_result (segment # rest) =
     (case translate_segment config translate transcription_result segment of
        Inl e \<Rightarrow> Inl e
      | Inr segment' \<Rightarrow>
          (case translate_loop config translate transcription_result rest of
             Inl e \<Rightarrow> Inl e
           | Inr rest' \<Rightarrow> Inr (segment' # rest')))"

definition translate_segments ::
  "PipelineConfig \<Rightarrow> translator option \<Rightarrow> TranscriptionResult \<Rightarrow> exn + TranscriptionResult" where
  "translate_segments config translator_opt transcription_result =
     (case translator_opt of
        None \<Rightarrow> Inr transcription_result
      | Some translate \<Rightarrow>
          (case translate_loop config translate transcription_result
                  (tr_segments transcription_result) of
             Inl e \<Rightarrow> Inl e
           | Inr segments \<Rightarrow> Inr (transcription_result\<lparr>tr_segments := segments\<rparr>)))"

subsection \<open>\<open>_create_subtitle_segments\<close>\<close>

text \<open>
  \<open>display_texts\<close> is the part of the loop body that computes \<open>final_text\<close> and the
  (possibly labelled) \<open>translated_text\<close>; \<open>.upper()\<close> on a language that is
  \<open>None\<close> raises AttributeError. The loop then constructs a \<open>SubtitleSegment\<close> with
  the keywords \<open>id\<close>, \<open>start\<close>, \<open>end\<close>, \<open>text\<close> and \<open>translated_text\<close>.
\<close>

definition language_label :: "string \<Rightarrow> string" where
  "language_label l = ''['' @ upper l @ ''] ''"

definition opt_str :: "string option \<Rightarrow> string" where
  "opt_str t = (case t of Some s \<Rightarrow> s | None \<Rightarrow> [])"

definition labelled_texts ::
  "PipelineConfig \<Rightarrow> TranscriptionSegment \<Rightarrow> exn + (string \<times> string option)" where
  "labelled_texts config segment =
     (let original_text = seg_text segment;
          translated_text = seg_translated_text segment
      in if add_language_labels config \<and> multilingual_detection config then
           (case seg_language segment of
              None \<Rightarrow>
                Inl (Exn AttributeError
                      (quoted ''NoneType'' @ '' object has no attribute '' @ quoted ''upper''))
            | Some l \<Rightarrow>
                Inr (language_label l @ original_text,
                     if truthy translated_text \<and> truthy (target_language config)
                     then Some (language_label (opt_str (target_language config))
                                @ opt_str translated_text)
                     else translated_text))
         else Inr (original_text, translated_text))"

definition final_text ::
  "PipelineConfig \<Rightarrow> TranscriptionSegment \<Rightarrow> string \<Rightarrow> string option \<Rightarrow> string" where
  "final_text config segment original_text translated_text =
     (if bilingual_subtitles config \<and> truthy translated_text
        then original_text @ nl @ opt_str translated_text
      else if preserve_original_languages config \<and> truthy translated_text
        then (if seg_language segment = target_language config then original_text
              else opt_str translated_text)
      else original_text)"

definition display_texts ::
  "PipelineConfig \<Rightarrow> TranscriptionSegment \<Rightarrow> exn + (string \<times> string option)" where
  "display_texts config segment =
     (case labelled_texts config segment of
        Inl e \<Rightarrow> Inl e
      | Inr (original_text, translated_text) \<Rightarrow>
          Inr (final_text config segment original_text translated_text, translated_text))"

fun create_loop ::
  "PipelineConfig \<Rightarrow> TranscriptionSegment list \<Rightarrow> SubtitleSegment list
   \<Rightarrow> exn + SubtitleSegment list" where
  "create_loop config [] subtitle_segments = Inr subtitle_segments"
| "create_loop config (segment # rest) subtitle_segments =
     (case display_texts config segment of
        Inl e \<Rightarrow> Inl e
      | Inr (text, translated_text) \<Rightarrow>
          (case SubtitleSegment_new
                  [(''id'', PyInt (seg_id segment)),
                   (''start'', PyFloat (seg_start segment)),
                   (''end'', PyFloat (seg_end segment)),
                   (''text'', PyStr text),
                   (''translated_text'',
                    case translated_text of None \<Rightarrow> PyNone | Some t \<Rightarrow> PyStr t)] of
             Inl e \<Rightarrow> Inl e
           | Inr subtitle \<Rightarrow> create_loop config rest (subtitle_segments @ [subtitle])))"

definition create_subtitle_segments ::
  "PipelineConfig \<Rightarrow> TranscriptionResult \<Rightarrow> exn + SubtitleSegment list" where
  "create_subtitle_segments config transcription_result =
     create_loop config (tr_segments transcription_result) []"

subsection \<open>Construction of the pipeline\<close>

text \<open>
  \<open>pipeline_env\<close> holds the outcomes of the constructors of the other components.
  \<open>_initialize_components\<close> wraps every exception into a RuntimeError.
\<close>

record pipeline_env =
  AudioExtractor_new :: "exn + unit"
  vad_environment :: vad_env
  WhisperEngine_new :: "exn + unit"
  MotherLineTranslator_new :: "exn + translator"

record Components =
  vad_segmenter :: VADSegmenter
  pipeline_translator :: "translator option"

definition init_failure_message :: "exn \<Rightarrow> string" where
  "init_failure_message e =
     ''Falha na inicializa'' @ [CHR 0xE7, CHR 0xE3] @ ''o do pipeline: '' @ str_of_exn e"

definition initialize_components :: "pipeline_env \<Rightarrow> PipelineConfig \<Rightarrow> exn + Components" where
  "initialize_components env config =
     try_except
       (case AudioExtractor_new env of
          Inl e \<Rightarrow> Inl e
        | Inr _ \<Rightarrow>
            (case VADSegmenter_new (vad_environment env)
                    [(''method'', PyStr (vad_method config)),
                     (''device'', PyStr (device config))] of
               Inl e \<Rightarrow> Inl e
             | Inr segmenter \<Rightarrow>
                 (case WhisperEngine_new env of
                    Inl e \<Rightarrow> Inl e
                  | Inr _ \<Rightarrow>
                      (if truthy (target_language config) then
                         (case MotherLineTranslator_new env of
                            Inl e \<Rightarrow> Inl e
                          | Inr t \<Rightarrow>
                              Inr \<lparr>vad_segmenter = segmenter, pipeline_translator = Some t\<rparr>)
                       else Inr \<lparr>vad_segmenter = segmenter, pipeline_translator = None\<rparr>))))
       (\<lambda>e. Inl (Exn RuntimeError (init_failure_message e)))"

record MotherLinePipeline =
  pipeline_config :: PipelineConfig
  pipeline_components :: Components

definition MotherLinePipeline_init :: "pipeline_env \<Rightarrow> PipelineConfig \<Rightarrow> exn + MotherLinePipeline" where
  "MotherLinePipeline_init env config =
     (case initialize_components env config of
        Inl e \<Rightarrow> Inl e
      | Inr components \<Rightarrow>
          Inr \<lparr>pipeline_config = config, pipeline_components = components\<rparr>)"

subsection \<open>\<open>process_file\<close>\<close>

text \<open>
  The dataclass \<open>ProcessingResult\<close>, with prefix \<open>pr_\<close>; its \<open>metadata\<close>
  dictionary is left out. \<open>file_world\<close> holds what \<open>process_file\<close> meets outside
  itself: whether a path exists, the parent of a path, the outcome of \<open>mkdir\<close>, the
  outcome of \<open>_execute_pipeline\<close> and the time elapsed when the call returns.
\<close>

record ProcessingResult =
  pr_success :: bool
  pr_output_files :: "string list"
  pr_processing_time :: rat
  pr_audio_duration :: rat
  pr_segments_count :: nat
  pr_detected_language :: "string option"
  pr_languages_found :: "string list"
  pr_multilingual_detected :: bool
  pr_error_message :: "string option"

record file_world =
  path_exists :: "string \<Rightarrow> bool"
  path_parent :: "string \<Rightarrow> string"
  mkdir :: "string \<Rightarrow> exn + unit"
  execute_pipeline :: "string \<Rightarrow> string \<Rightarrow> exn + ProcessingResult"
  elapsed :: rat

definition not_found_message :: "string \<Rightarrow> string" where
  "not_found_message input_file = ''Arquivo n'' @ [CHR 0xE3] @ ''o encontrado: '' @ input_file"

definition failure_result :: "exn \<Rightarrow> rat \<Rightarrow> ProcessingResult" where
  "failure_result e processing_time =
     \<lparr>pr_success = False, pr_output_files = [], pr_processing_time = processing_time,
      pr_audio_duration = 0, pr_segments_count = 0, pr_detected_language = None,
      pr_languages_found = [], pr_multilingual_detected = False,
      pr_error_message = Some (str_of_exn e)\<rparr>"

definition process_file_body :: "file_world \<Rightarrow> string \<Rightarrow> string option \<Rightarrow> exn + ProcessingResult" where
  "process_file_body w input_file output_dir =
     (if \<not> path_exists w input_file
      then Inl (Exn FileNotFoundError (not_found_message input_file))
      else (let out = (case output_dir of None \<Rightarrow> path_parent w input_file | Some d \<Rightarrow> d)
            in case mkdir w out of
                 Inl e \<Rightarrow> Inl e
               | Inr _ \<Rightarrow>
                   (case execute_pipeline w input_file out of
                      Inl e \<Rightarrow> Inl e
                    | Inr result \<Rightarrow> Inr (result\<lparr>pr_processing_time := elapsed w\<rparr>))))"

definition process_file :: "file_world \<Rightarrow> string \<Rightarrow> string option \<Rightarrow> exn + ProcessingResult" where
  "process_file w input_file output_dir =
     try_except (process_file_body w input_file output_dir)
       (\<lambda>e. Inr (failure_result e (elapsed w)))"

subsection \<open>Concrete inputs\<close>

definition hello_segment :: TranscriptionSegment where
  "hello_segment =
     \<lparr>seg_id = 1, seg_start = 0, seg_end = 2, seg_text = ''hello'', seg_confidence = 1,
      seg_language = Some ''en'', seg_language_confidence = 1,
      seg_translated_text = Some ''bonjour''\<rparr>"

definition hello_result :: TranscriptionResult where
  "hello_result =
     \<lparr>tr_segments = [hello_segment], tr_detected_language = ''en'',
      tr_language_confidence = 1, tr_processing_time = 1, tr_model_used = ''tiny'',
      tr_multilingual_detected = False, tr_languages_found = None\<rparr>"

definition bilingual_config :: PipelineConfig where
  "bilingual_config =
     post_init ''/home/u/.cache/motherline''
       (default_config\<lparr>target_language := Some ''fr'', bilingual_subtitles := True\<rparr>)"

definition preserve_config :: PipelineConfig where
  "preserve_config =
     post_init ''/home/u/.cache/motherline''
       (default_config\<lparr>target_language := Some ''fr'', multilingual_detection := True,
                       preserve_original_languages := True\<rparr>)"

definition failing_translator :: translator where
  "failing_translator text source_lang target_lang = Inl (Exn OtherError ''no language pair'')"

definition missing_file_world :: file_world where
  "missing_file_world =
     \<lparr>path_exists = (\<lambda>p. False), path_parent = (\<lambda>p. ''.''), mkdir = (\<lambda>p. Inr ()),
      execute_pipeline = (\<lambda>i out. Inl (Exn RuntimeError ''unreachable'')), elapsed = 1 / 100\<rparr>"

definition asr_failure_world :: file_world where
  "asr_failure_world =
     \<lparr>path_exists = (\<lambda>p. True), path_parent = (\<lambda>p. ''.''), mkdir = (\<lambda>p. Inr ()),
      execute_pipeline =
        (\<lambda>i out. Inl (Exn RuntimeError (''Falha na transcri'' @ [CHR 0xE7, CHR 0xE3] @ ''o: no model''))),
      elapsed = 3\<rparr>"

section \<open>Configuration resolution\<close>

lemma post_init_keeps_flags:
  "multilingual_detection (post_init h c) = multilingual_detection c"
  "target_language (post_init h c) = target_language c"
  by (simp_all add: post_init_def Let_def)

text \<open>
  C5, as the claim states it, fails: a configuration built with
  \<open>multilingual_detection\<close> set and an explicit source language keeps that language; it
  is not forced to \<open>"multilingual"\<close>.
\<close>

theorem C5_source_language_not_forced:
  "multilingual_detection (post_init ''/home/u/.cache/motherline''
       (default_config\<lparr>multilingual_detection := True, source_language := ''en''\<rparr>))
   \<and> source_language (post_init ''/home/u/.cache/motherline''
       (default_config\<lparr>multilingual_detection := True, source_language := ''en''\<rparr>))
      \<noteq> ''multilingual''"
  by (simp add: post_init_def default_config_def)

text \<open>
  C5 (amended): when \<open>multilingual_detection\<close> is set, construction replaces the source
  language \<open>"auto"\<close> by \<open>"multilingual"\<close> and keeps any other source language; when
  additionally no target language is set, \<open>preserve_original_languages\<close> is forced to
  true. Hence every constructed configuration with \<open>multilingual_detection\<close> and no
  target language has \<open>preserve_original_languages\<close>.
\<close>

theorem C5_post_init_multilingual:
  "(multilingual_detection c \<longrightarrow>
      source_language (post_init h c) =
        (if source_language c = ''auto'' then ''multilingual'' else source_language c)
      \<and> (\<not> truthy (target_language c) \<longrightarrow> preserve_original_languages (post_init h c)))
   \<and> (multilingual_detection (post_init h c) \<and> \<not> truthy (target_language (post_init h c))
        \<longrightarrow> preserve_original_languages (post_init h c))"
  by (simp add: post_init_def Let_def)

theorem C5_post_init_multilingual_witness:
  "multilingual_detection (default_config\<lparr>multilingual_detection := True\<rparr>)
   \<and> \<not> truthy (target_language (default_config\<lparr>multilingual_detection := True\<rparr>))
   \<and> source_language (post_init ''/home/u/.cache/motherline''
        (default_config\<lparr>multilingual_detection := True\<rparr>)) = ''multilingual''
   \<and> preserve_original_languages (post_init ''/home/u/.cache/motherline''
        (default_config\<lparr>multilingual_detection := True\<rparr>))"
  using C5_post_init_multilingual
    [of "default_config\<lparr>multilingual_detection := True\<rparr>" "''/home/u/.cache/motherline''"]
  by (simp add: default_config_def)

section \<open>Segmentation: span lists\<close>

lemma chain_Nil: "chain lo hi []"
  by (simp add: chain_def)

lemma chain_mono: "chain lo hi xs \<Longrightarrow> lo' \<le> lo \<Longrightarrow> hi \<le> hi' \<Longrightarrow> chain lo' hi' xs"
  by (fastforce simp: chain_def)

lemma chain_append:
  "chain a b xs \<Longrightarrow> chain b c ys \<Longrightarrow> a \<le> b \<Longrightarrow> b \<le> c \<Longrightarrow> chain a c (xs @ ys)"
  by (fastforce simp: chain_def sorted_wrt_append)

lemma chain_single: "lo \<le> st \<Longrightarrow> st < en \<Longrightarrow> en \<le> hi \<Longrightarrow> chain lo hi [(st, en)]"
  by (simp add: chain_def)

lemma chain_snoc:
  assumes "chain a b xs" "a \<le> b" "b \<le> st" "st < en"
  shows "chain a en (xs @ [(st, en)])"
proof -
  have "chain b en [(st, en)]" using assms by (simp add: chain_single)
  with assms show ?thesis by (intro chain_append) auto
qed




lemma fixed_loop_chain_aux:
  assumes "fixed_loop D L cur segs = Some r"
  shows "(L \<le> 0 \<longrightarrow> cur < D \<longrightarrow> False) \<and>
         (lo \<le> cur \<longrightarrow> chain lo cur segs \<longrightarrow> (segs \<noteq> [] \<longrightarrow> cur \<le> D) \<longrightarrow> chain lo D r)"
proof (rule fixed_loop.raw_induct
    [where P = "\<lambda>D L cur segs r. (L \<le> 0 \<longrightarrow> cur < D \<longrightarrow> False) \<and>
         (lo \<le> cur \<longrightarrow> chain lo cur segs \<longrightarrow> (segs \<noteq> [] \<longrightarrow> cur \<le> D) \<longrightarrow> chain lo D r)", OF _ assms])
  fix f D L cur segs and r :: "span list"
  assume IH: "\<And>D L cur segs r. f D L cur segs = Some r \<Longrightarrow>
         (L \<le> 0 \<longrightarrow> cur < D \<longrightarrow> False) \<and>
         (lo \<le> cur \<longrightarrow> chain lo cur segs \<longrightarrow> (segs \<noteq> [] \<longrightarrow> cur \<le> D) \<longrightarrow> chain lo D r)"
    and step: "(if cur < D then
        (let end_time = min (cur + L) D
         in f D L end_time (segs @ [(cur, end_time)]))
      else Some segs) = Some r"
  show "(L \<le> 0 \<longrightarrow> cur < D \<longrightarrow> False) \<and>
         (lo \<le> cur \<longrightarrow> chain lo cur segs \<longrightarrow> (segs \<noteq> [] \<longrightarrow> cur \<le> D) \<longrightarrow> chain lo D r)"
  proof (cases "cur < D")
    case False
    with step have "r = segs" by simp
    with False show ?thesis
      by (cases "segs = []") (auto simp: chain_Nil intro: chain_mono)
  next
    case True
    define e where "e = min (cur + L) D"
    from step True have rec: "f D L e (segs @ [(cur, e)]) = Some r"
      by (simp add: Let_def e_def)
    note ih = IH[OF rec]
    show ?thesis
    proof (cases "L \<le> 0")
      case Lle: True
      then have "e < D" using True by (simp add: e_def min_def)
      with ih Lle show ?thesis by blast
    next
      case Lpos: False
      then have ce: "cur < e" "e \<le> D" using True by (simp_all add: e_def min_def)
      have "chain lo D r" if a: "lo \<le> cur" "chain lo cur segs"
      proof -
        have "chain lo e (segs @ [(cur, e)])"
          using chain_snoc[of lo cur segs cur e] a ce by simp
        with ih a ce show ?thesis by auto
      qed
      with Lpos show ?thesis by auto
    qed
  qed
qed

lemma fixed_loop_diverges:
  "L \<le> 0 \<Longrightarrow> cur < D \<Longrightarrow> fixed_loop D L cur segs = None"
  using fixed_loop_chain_aux[of D L cur segs] by (cases "fixed_loop D L cur segs") auto













section \<open>Segmentation: the fixed-window strategy\<close>








section \<open>Segmentation: fallback\<close>





section \<open>Subtitle validation and rendering\<close>

lemma validate_segment_idem:
  "validate_segment segment = (s', True) \<Longrightarrow> validate_segment s' = (s', True)"
  by (auto simp: validate_segment_def Let_def split: if_splits)

text \<open>
  C3: validation is idempotent. For every list of subtitle segments \<open>X\<close>,
  \<open>validate_segments (validate_segments X) = validate_segments X\<close>: the second pass
  keeps every segment of the first and changes none of its fields.
\<close>

theorem C3_validate_segments_idempotent:
  "validate_segments (validate_segments X) = validate_segments X"
proof (induction X)
  case Nil
  then show ?case by (simp add: validate_segments_def)
next
  case (Cons a X)
  obtain s' k where v: "validate_segment a = (s', k)" by (cases "validate_segment a")
  show ?case
  proof (cases k)
    case True
    with v validate_segment_idem[of a s'] Cons show ?thesis
      by (simp add: validate_segments_def)
  next
    case False
    with v Cons show ?thesis by (simp add: validate_segments_def)
  qed
qed











section \<open>Translation failures\<close>

lemma translate_segment_total:
  "\<exists>segment'. translate_segment config translate transcription_result segment = Inr segment'"
  by (auto simp: translate_segment_def try_except_def Let_def split: sum.splits)

lemma translate_loop_total:
  "\<exists>segments'. translate_loop config translate transcription_result segments = Inr segments'
      \<and> length segments' = length segments
      \<and> (\<forall>i < length segments.
            translate_segment config translate transcription_result (segments ! i)
              = Inr (segments' ! i))"
proof (induction segments)
  case Nil
  then show ?case by simp
next
  case (Cons segment rest)
  obtain segment' where
    s: "translate_segment config translate transcription_result segment = Inr segment'"
    using translate_segment_total by blast
  from Cons obtain rest' where
    r: "translate_loop config translate transcription_result rest = Inr rest'"
      "length rest' = length rest"
      "\<forall>i < length rest.
         translate_segment config translate transcription_result (rest ! i) = Inr (rest' ! i)"
    by blast
  have "\<forall>i < length (segment # rest).
          translate_segment config translate transcription_result ((segment # rest) ! i)
            = Inr ((segment' # rest') ! i)"
    using s r(3) by (auto simp: nth_Cons split: nat.splits)
  with s r show ?case by simp
qed

lemma translate_segment_failure:
  assumes "segment_source_lang config transcription_result segment \<noteq> target_language config"
    and "translate (seg_text segment) (segment_source_lang config transcription_result segment)
           (target_language config) = Inl e"
    and "translate_segment config translate transcription_result segment = Inr segment'"
  shows "seg_text segment' = seg_text segment
     \<and> (preserve_original_languages config \<longrightarrow>
          seg_translated_text segment' = Some (seg_text segment))"
  using assms by (auto simp: translate_segment_def try_except_def Let_def split: if_splits)

text \<open>
  C6: \<open>_translate_segments\<close> raises nothing, whatever the translator does. For every
  segment whose source language differs from the target language and whose translation
  raises, the segment keeps its text, and when \<open>preserve_original_languages\<close> is set
  its \<open>translated_text\<close> becomes that text.
\<close>

theorem C6_translation_failure_absorbed:
  "\<exists>result'.
     translate_segments config translator_opt transcription_result = Inr result'
     \<and> length (tr_segments result') = length (tr_segments transcription_result)
     \<and> (\<forall>translate i e.
           translator_opt = Some translate
           \<and> i < length (tr_segments transcription_result)
           \<and> segment_source_lang config transcription_result (tr_segments transcription_result ! i)
                 \<noteq> target_language config
           \<and> translate (seg_text (tr_segments transcription_result ! i))
                 (segment_source_lang config transcription_result
                    (tr_segments transcription_result ! i))
                 (target_language config) = Inl e
           \<longrightarrow> seg_text (tr_segments result' ! i) = seg_text (tr_segments transcription_result ! i)
               \<and> (preserve_original_languages config \<longrightarrow>
                     seg_translated_text (tr_segments result' ! i)
                       = Some (seg_text (tr_segments transcription_result ! i))))"
proof (cases translator_opt)
  case None
  then show ?thesis by (simp add: translate_segments_def)
next
  case (Some translate)
  obtain segments' where
    l: "translate_loop config translate transcription_result (tr_segments transcription_result)
          = Inr segments'"
      "length segments' = length (tr_segments transcription_result)"
      "\<forall>i < length (tr_segments transcription_result).
         translate_segment config translate transcription_result
           (tr_segments transcription_result ! i) = Inr (segments' ! i)"
    using translate_loop_total by blast
  have r: "translate_segments config translator_opt transcription_result
             = Inr (transcription_result\<lparr>tr_segments := segments'\<rparr>)"
    using Some l(1) by (simp add: translate_segments_def)
  let ?segs = "tr_segments transcription_result"
  let ?R = "transcription_result\<lparr>tr_segments := segments'\<rparr>"
  have c2: "length (tr_segments ?R) = length ?segs"
    by (simp add: l(2))
  have c3: "\<forall>translate i e.
           translator_opt = Some translate
           \<and> i < length ?segs
           \<and> segment_source_lang config transcription_result (?segs ! i)
                 \<noteq> target_language config
           \<and> translate (seg_text (?segs ! i))
                 (segment_source_lang config transcription_result (?segs ! i))
                 (target_language config) = Inl e
           \<longrightarrow> seg_text (tr_segments ?R ! i) = seg_text (?segs ! i)
               \<and> (preserve_original_languages config \<longrightarrow>
                     seg_translated_text (tr_segments ?R ! i) = Some (seg_text (?segs ! i)))"
  proof (intro allI impI)
    fix translate' i e
    assume H: "translator_opt = Some translate'
           \<and> i < length ?segs
           \<and> segment_source_lang config transcription_result (?segs ! i)
                 \<noteq> target_language config
           \<and> translate' (seg_text (?segs ! i))
                 (segment_source_lang config transcription_result (?segs ! i))
                 (target_language config) = Inl e"
    then have eq: "translate' = translate" using Some by simp
    from H l(3) have ts:
      "translate_segment config translate transcription_result (?segs ! i) = Inr (segments' ! i)"
      by simp
    from H have d: "segment_source_lang config transcription_result (?segs ! i)
                 \<noteq> target_language config" by simp
    from H eq have f: "translate (seg_text (?segs ! i))
                 (segment_source_lang config transcription_result (?segs ! i))
                 (target_language config) = Inl e" by simp
    from translate_segment_failure[OF d f ts]
    show "seg_text (tr_segments ?R ! i) = seg_text (?segs ! i)
          \<and> (preserve_original_languages config \<longrightarrow>
               seg_translated_text (tr_segments ?R ! i) = Some (seg_text (?segs ! i)))"
      by simp
  qed
  from r c2 c3 have "translate_segments config translator_opt transcription_result = Inr ?R
     \<and> length (tr_segments ?R) = length ?segs
     \<and> (\<forall>translate i e.
           translator_opt = Some translate
           \<and> i < length ?segs
           \<and> segment_source_lang config transcription_result (?segs ! i)
                 \<noteq> target_language config
           \<and> translate (seg_text (?segs ! i))
                 (segment_source_lang config transcription_result (?segs ! i))
                 (target_language config) = Inl e
           \<longrightarrow> seg_text (tr_segments ?R ! i) = seg_text (?segs ! i)
               \<and> (preserve_original_languages config \<longrightarrow>
                     seg_translated_text (tr_segments ?R ! i) = Some (seg_text (?segs ! i))))"
    by (intro conjI)
  then show ?thesis by (rule exI)
qed

text \<open>
  A translator that always raises, a French target and an English segment, originals
  preserved: the text stays \<open>hello\<close> and becomes the translation as well.
\<close>

theorem C6_translation_failure_absorbed_witness:
  "segment_source_lang preserve_config hello_result hello_segment
     \<noteq> target_language preserve_config
   \<and> preserve_original_languages preserve_config
   \<and> translate_segments preserve_config (Some failing_translator) hello_result
       = Inr (hello_result\<lparr>tr_segments :=
                [hello_segment\<lparr>seg_translated_text := Some ''hello''\<rparr>]\<rparr>)"
proof -
  have a: "segment_source_lang preserve_config hello_result hello_segment
     \<noteq> target_language preserve_config"
    by (simp add: segment_source_lang_def preserve_config_def post_init_def default_config_def
        hello_segment_def)
  have b: "preserve_original_languages preserve_config"
    by (simp add: preserve_config_def post_init_def default_config_def)
  have c: "translate_segments preserve_config (Some failing_translator) hello_result
       = Inr (hello_result\<lparr>tr_segments :=
                [hello_segment\<lparr>seg_translated_text := Some ''hello''\<rparr>]\<rparr>)"
    using a b
    by (simp add: translate_segments_def translate_segment_def try_except_def
        failing_translator_def hello_result_def) (simp add: hello_segment_def)
  from C6_translation_failure_absorbed
    [of preserve_config "Some failing_translator" hello_result] a b c
  show ?thesis by simp
qed
section \<open>Construction of the pipeline\<close>

lemma VADSegmenter_new_device:
  "VADSegmenter_new env [(''method'', PyStr m), (''device'', PyStr d)]
     = Inl (Exn TypeError
             (''VADSegmenter.__init__() got an unexpected keyword argument '' @ quoted ''device''))"
  by (simp add: VADSegmenter_new_def check_keywords_def)

lemma initialize_components_raises:
  "\<exists>cause. initialize_components env config = Inl (Exn RuntimeError (init_failure_message cause))"
proof (cases "AudioExtractor_new env")
  case (Inl e)
  then show ?thesis by (auto simp: initialize_components_def try_except_def)
next
  case (Inr u)
  then show ?thesis
    by (auto simp: initialize_components_def try_except_def VADSegmenter_new_device)
qed

text \<open>
  C10: for every configuration, and whatever the other constructors do, constructing
  \<open>MotherLinePipeline\<close> raises RuntimeError: \<open>_initialize_components\<close> calls
  \<open>VADSegmenter\<close> with the keyword \<open>device\<close>, which \<open>VADSegmenter.__init__\<close> does
  not accept; the TypeError (or an earlier failure of \<open>AudioExtractor\<close>) is caught and
  raised again as RuntimeError, so no pipeline is ever constructed.
\<close>

theorem C10_pipeline_construction_raises:
  "(\<exists>message. MotherLinePipeline_init env config = Inl (Exn RuntimeError message))
   \<and> VADSegmenter_new (vad_environment env)
        [(''method'', PyStr (vad_method config)), (''device'', PyStr (device config))]
       = Inl (Exn TypeError
               (''VADSegmenter.__init__() got an unexpected keyword argument ''
                @ quoted ''device''))"
proof -
  obtain cause where
    "initialize_components env config = Inl (Exn RuntimeError (init_failure_message cause))"
    using initialize_components_raises by blast
  then have "MotherLinePipeline_init env config
               = Inl (Exn RuntimeError (init_failure_message cause))"
    by (simp add: MotherLinePipeline_init_def)
  then show ?thesis using VADSegmenter_new_device by blast
qed

section \<open>\<open>process_file\<close> never raises\<close>

lemma process_file_failure:
  "process_file_body w input_file output_dir = Inl e \<Longrightarrow>
   process_file w input_file output_dir = Inr (failure_result e (elapsed w))"
  by (simp add: process_file_def try_except_def)

lemma process_file_total:
  "\<exists>result. process_file w input_file output_dir = Inr result"
  by (cases "process_file_body w input_file output_dir")
     (simp_all add: process_file_def try_except_def)

text \<open>
  C8: \<open>process_file\<close> raises no exception: it always returns a result. When its body
  raises \<open>e\<close> (the input file is missing, the output directory cannot be made, or any
  exception leaves \<open>_execute_pipeline\<close>: audio extraction, transcription, any stage),
  the result has \<open>success = False\<close>, \<open>error_message = str(e)\<close> and no output files.
\<close>

theorem C8_process_file_never_raises:
  "(\<exists>result. process_file w input_file output_dir = Inr result)
   \<and> (process_file_body w input_file output_dir = Inl e \<longrightarrow>
        (\<exists>result. process_file w input_file output_dir = Inr result
           \<and> \<not> pr_success result
           \<and> pr_error_message result = Some (str_of_exn e)
           \<and> pr_output_files result = []))
   \<and> (\<not> path_exists w input_file \<longrightarrow>
        process_file_body w input_file output_dir
          = Inl (Exn FileNotFoundError (not_found_message input_file)))
   \<and> (path_exists w input_file
        \<and> mkdir w (case output_dir of None \<Rightarrow> path_parent w input_file | Some d \<Rightarrow> d) = Inr ()
        \<and> execute_pipeline w input_file
             (case output_dir of None \<Rightarrow> path_parent w input_file | Some d \<Rightarrow> d) = Inl e
        \<longrightarrow> process_file_body w input_file output_dir = Inl e)"
proof (intro conjI impI)
  show "\<exists>result. process_file w input_file output_dir = Inr result"
    by (rule process_file_total)
next
  assume "process_file_body w input_file output_dir = Inl e"
  then have "process_file w input_file output_dir = Inr (failure_result e (elapsed w))"
    by (rule process_file_failure)
  then show "\<exists>result. process_file w input_file output_dir = Inr result
           \<and> \<not> pr_success result
           \<and> pr_error_message result = Some (str_of_exn e)
           \<and> pr_output_files result = []"
    by (simp add: failure_result_def)
next
  assume "\<not> path_exists w input_file"
  then show "process_file_body w input_file output_dir
          = Inl (Exn FileNotFoundError (not_found_message input_file))"
    by (simp add: process_file_body_def)
next
  assume "path_exists w input_file
        \<and> mkdir w (case output_dir of None \<Rightarrow> path_parent w input_file | Some d \<Rightarrow> d) = Inr ()
        \<and> execute_pipeline w input_file
             (case output_dir of None \<Rightarrow> path_parent w input_file | Some d \<Rightarrow> d) = Inl e"
  then show "process_file_body w input_file output_dir = Inl e"
    by (simp add: process_file_body_def Let_def)
qed

text \<open>A missing input file, and a transcription that fails.\<close>

theorem C8_process_file_never_raises_witness:
  "\<not> path_exists missing_file_world ''talk.mp4''
   \<and> process_file missing_file_world ''talk.mp4'' None
       = Inr (failure_result (Exn FileNotFoundError (not_found_message ''talk.mp4'')) (1 / 100))
   \<and> path_exists asr_failure_world ''talk.mp4''
   \<and> process_file asr_failure_world ''talk.mp4'' None
       = Inr (failure_result
               (Exn RuntimeError (''Falha na transcri'' @ [CHR 0xE7, CHR 0xE3] @ ''o: no model''))
               3)
   \<and> pr_output_files (failure_result
               (Exn RuntimeError (''Falha na transcri'' @ [CHR 0xE7, CHR 0xE3] @ ''o: no model''))
               3) = []"
proof -
  let ?e1 = "Exn FileNotFoundError (not_found_message ''talk.mp4'')"
  let ?e2 = "Exn RuntimeError (''Falha na transcri'' @ [CHR 0xE7, CHR 0xE3] @ ''o: no model'')"
  have m: "\<not> path_exists missing_file_world ''talk.mp4''"
    by (simp add: missing_file_world_def)
  note t1 = C8_process_file_never_raises
    [of missing_file_world "''talk.mp4''" None ?e1]
  from t1 m have b1: "process_file_body missing_file_world ''talk.mp4'' None = Inl ?e1"
    by blast
  have r1: "process_file missing_file_world ''talk.mp4'' None = Inr (failure_result ?e1 (1 / 100))"
    using b1 by (simp add: process_file_def try_except_def missing_file_world_def)
  have a1: "path_exists asr_failure_world ''talk.mp4''"
    by (simp add: asr_failure_world_def)
  have a: "path_exists asr_failure_world ''talk.mp4''
        \<and> mkdir asr_failure_world
            (case None of None \<Rightarrow> path_parent asr_failure_world ''talk.mp4'' | Some d \<Rightarrow> d) = Inr ()
        \<and> execute_pipeline asr_failure_world ''talk.mp4''
             (case None of None \<Rightarrow> path_parent asr_failure_world ''talk.mp4'' | Some d \<Rightarrow> d)
            = Inl ?e2"
    by (simp add: asr_failure_world_def)
  note t2 = C8_process_file_never_raises
    [of asr_failure_world "''talk.mp4''" None ?e2]
  from t2 a have b2: "process_file_body asr_failure_world ''talk.mp4'' None = Inl ?e2"
    by blast
  have r2: "process_file asr_failure_world ''talk.mp4'' None = Inr (failure_result ?e2 3)"
    using b2 by (simp add: process_file_def try_except_def asr_failure_world_def)
  have o: "pr_output_files (failure_result ?e2 3) = []"
    by (simp add: failure_result_def)
  from m r1 a1 r2 o show ?thesis by blast
qed

section \<open>Display segments\<close>

lemma create_loop_raises:
  "\<exists>e. create_loop config (segment # rest) subtitle_segments = Inl e"
  by (cases "display_texts config segment")
     (auto simp: SubtitleSegment_new_def check_keywords_def)

lemma display_texts_chain:
  assumes "\<not> (add_language_labels config \<and> multilingual_detection config)"
  shows "display_texts config segment =
     Inr (if bilingual_subtitles config \<and> truthy (seg_translated_text segment)
            then seg_text segment @ nl @ opt_str (seg_translated_text segment)
          else if preserve_original_languages config \<and> truthy (seg_translated_text segment)
            then (if seg_language segment = target_language config then seg_text segment
                  else opt_str (seg_translated_text segment))
          else seg_text segment,
          seg_translated_text segment)"
proof -
  from assms have "labelled_texts config segment
      = Inr (seg_text segment, seg_translated_text segment)"
    unfolding labelled_texts_def Let_def by (simp only: if_False)
  then show ?thesis by (simp add: display_texts_def final_text_def)
qed

text \<open>
  C4: the text the loop computes follows the priority chain (\<open>hello\<close> with translation
  \<open>bonjour\<close> under \<open>bilingual_subtitles\<close> gives the two lines), but
  \<open>_create_subtitle_segments\<close> then constructs \<open>SubtitleSegment\<close> with the keywords
  \<open>id\<close> and \<open>translated_text\<close>, which the dataclass does not have: the call raises
  TypeError on the first segment and no display segment is produced.
\<close>

theorem C4_create_subtitle_segments_raises:
  "display_texts bilingual_config hello_segment
     = Inr (''hello'' @ nl @ ''bonjour'', Some ''bonjour'')
   \<and> create_subtitle_segments bilingual_config hello_result
     = Inl (Exn TypeError
             (''SubtitleSegment.__init__() got an unexpected keyword argument ''
              @ quoted ''id''))
   \<and> (\<exists>e. create_subtitle_segments config
             (transcription_result\<lparr>tr_segments := segment # rest\<rparr>) = Inl e)"
proof -
  have a: "display_texts bilingual_config hello_segment
     = Inr (''hello'' @ nl @ ''bonjour'', Some ''bonjour'')"
    by code_simp
  have b: "create_subtitle_segments bilingual_config hello_result
     = Inl (Exn TypeError
             (''SubtitleSegment.__init__() got an unexpected keyword argument ''
              @ quoted ''id''))"
    by code_simp
  have c: "\<exists>e. create_subtitle_segments config
             (transcription_result\<lparr>tr_segments := segment # rest\<rparr>) = Inl e"
    using create_loop_raises by (simp add: create_subtitle_segments_def)
  from a b c show ?thesis by blast
qed

end
